theory Spec2Isabelle
  imports Main
begin

section \<open>The application shell: \<open>packages/core/src/api/app/App.tsx\<close>\<close>

subsection \<open>Plugin output model\<close>

text \<open>
  Modelled from the spec: the plugin and output-descriptor types, which \<open>App.tsx\<close>
  imports from \<open>../plugin\<close>. A plugin has an identity string and an ordered sequence of
  output descriptors. A descriptor is a variant tagged by its \<open>type\<close> string: a route
  carries a path, a component and options, a nav-target component a target with a path,
  a component and options, a redirect a path, a target path and options, a feature flag
  a name. \<open>options\<close> may be absent, and so may \<open>exact\<close> inside it. \<open>OtherOutput t\<close>
  stands for a descriptor whose tag \<open>t\<close> is none of the four kinds that the switch in
  \<open>getRootComponent\<close> knows.
  A \<open>FeatureFlagsRegistryItem\<close>, from \<open>./FeatureFlags\<close>, is the id of the owning
  plugin with the name of the flag.
\<close>

type_synonym RoutePath = string

record RouteOptions =
  exact :: "bool option"

record RouteRef =
  path :: RoutePath

text \<open>
  Components are opaque renderables. \<open>LoginPage\<close> is the imported login page,
  \<open>DefaultNotFoundPage\<close> the 404 page that \<open>createApp\<close> builds, and \<open>Component c\<close>
  any component supplied by a plugin or by the options.
\<close>

datatype 'c component = LoginPage | DefaultNotFoundPage | Component 'c

datatype 'c PluginOutput =
    RouteOutput RoutePath "'c component" "RouteOptions option"
  | NavTargetComponentOutput RouteRef "'c component" "RouteOptions option"
  | RedirectRouteOutput RoutePath RoutePath "RouteOptions option"
  | FeatureFlagOutput string
  | OtherOutput string

fun output_type :: "'c PluginOutput \<Rightarrow> string" where
  "output_type (RouteOutput p c opts) = ''route''"
| "output_type (NavTargetComponentOutput t c opts) = ''nav-target-component''"
| "output_type (RedirectRouteOutput p t opts) = ''redirect-route''"
| "output_type (FeatureFlagOutput n) = ''feature-flag''"
| "output_type (OtherOutput t) = t"

record 'c BackstagePlugin =
  getId :: string
  output' :: "'c PluginOutput list"

record FeatureFlagsRegistryItem =
  pluginId :: string
  name :: string

subsection \<open>Themes\<close>

datatype variant = light | dark

text \<open>
  Modelled from the spec: the theme entry \<open>AppTheme\<close>, imported from \<open>../apis\<close>, with
  its id, title, variant (light or dark) and theme object. A theme object is either the
  imported constant \<open>lightTheme\<close> or one supplied by the caller. Theme objects are
  JavaScript objects, hence always truthy: in the option record a present \<open>light\<close> or
  \<open>dark\<close> is \<open>Some\<close>, an absent one \<open>None\<close>.
\<close>

datatype 't theme_object = lightTheme | Theme 't

record 't AppTheme =
  id' :: string
  title :: string
  variant :: variant
  theme :: "'t theme_object"

text \<open>The \<open>themes\<close> option: an array of entries, or an object \<open>{light?, dark?}\<close>.\<close>

datatype 't themes_option =
    ThemeArray "'t AppTheme list"
  | ThemePair "'t theme_object option" "'t theme_object option"

subsection \<open>Capability registry and the feature-flag provider\<close>

text \<open>
  Modelled from the spec: the capability registry, imported from \<open>../apis\<close>, and the
  feature-flag provider with its registered-flags list. An \<open>ApiHolder\<close> maps API
  references to implementation objects. The implementation objects are shared and
  mutable, so the holder stores addresses and a separate heap gives, for the object at
  each address, the current value of its \<open>registeredFeatureFlags\<close> field.
  \<open>ApiRegistry.from(pairs)\<close> is the association list itself; \<open>get\<close> returns the first
  implementation registered under the reference, or nothing.
\<close>

datatype ApiRef = featureFlagsApiRef | OtherApiRef string

type_synonym addr = nat

type_synonym ApiHolder = "(ApiRef \<times> addr) list"

type_synonym heap = "addr \<Rightarrow> FeatureFlagsRegistryItem list"

definition ApiRegistry_from :: "(ApiRef \<times> addr) list \<Rightarrow> ApiHolder" where
  "ApiRegistry_from pairs = pairs"

definition get :: "ApiHolder \<Rightarrow> ApiRef \<Rightarrow> addr option" where
  "get holder ref = map_of holder ref"

subsection \<open>Options and the application object\<close>

record 'c AppComponents =
  NotFoundErrorPage :: "'c component"

text \<open>
  Modelled from the spec: \<open>AppOptions\<close> and \<open>AppComponents\<close>, imported from \<open>./types\<close>.
  Every field of the options may be absent. The \<open>components\<close> override map has the one
  recognised key \<open>NotFoundErrorPage\<close>, itself optional.
\<close>

record ('c, 'i, 't) AppOptions =
  opt_apis :: "ApiHolder option"
  opt_icons :: "(string \<rightharpoonup> 'i) option"
  opt_plugins :: "'c BackstagePlugin list option"
  opt_components :: "'c component option option"
  opt_themes :: "'t themes_option option"

text \<open>
  \<open>FullAppOptions\<close> and the fields of \<open>AppImpl\<close>, which the constructor copies one by
  one. \<open>apis\<close> is typed as always present, but \<open>getRootComponent\<close> tests it for
  truthiness twice, so the field is an option here and both tests are branches.
\<close>

record ('c, 'i, 't) AppImpl =
  apis :: "ApiHolder option"
  icons :: "string \<rightharpoonup> 'i"
  plugins :: "'c BackstagePlugin list"
  components :: "'c AppComponents"
  themes :: "'t AppTheme list"

datatype error = Error string

subsection \<open>\<open>AppImpl.verify\<close>\<close>

definition duplicate_message :: "string \<Rightarrow> string" where
  "duplicate_message i = ''Duplicate plugin found '' @ [CHR 0x27] @ i @ [CHR 0x27]"

text \<open>
  The loop of \<open>verify\<close>: \<open>pluginIds\<close> is the set of ids seen so far; a plugin whose id is
  already there throws, any other is added.
\<close>

fun verify_loop :: "'c BackstagePlugin list \<Rightarrow> string set \<Rightarrow> error + string set" where
  "verify_loop [] pluginIds = Inr pluginIds"
| "verify_loop (plugin # rest) pluginIds =
     (let i = getId plugin in
      if i \<in> pluginIds then Inl (Error (duplicate_message i))
      else verify_loop rest (insert i pluginIds))"

text \<open>
  \<open>verify\<close> is a method: it returns (or throws) and leaves the object in some state,
  which is the second component.
\<close>

definition verify :: "('c, 'i, 't) AppImpl \<Rightarrow> (error + unit) \<times> ('c, 'i, 't) AppImpl" where
  "verify this =
     (case verify_loop (plugins this) {} of
        Inl e \<Rightarrow> (Inl e, this)
      | Inr pluginIds \<Rightarrow> (Inr (), this))"

subsection \<open>\<open>createApp\<close>\<close>

text \<open>Lines 185 to 214: the theme list, built by pushing onto an empty array.\<close>

definition createApp_themes :: "'t themes_option option \<Rightarrow> 't AppTheme list" where
  "createApp_themes ths =
     (let themes0 = [];
          themes1 =
            (case ths of
               Some (ThemeArray ts) \<Rightarrow> themes0 @ ts
             | Some (ThemePair l d) \<Rightarrow>
                 (let a = (case l of
                             Some t \<Rightarrow> themes0 @ [\<lparr>id' = ''light'', title = ''Light Theme'',
                                                   variant = light, theme = t\<rparr>]
                           | None \<Rightarrow> themes0)
                  in (case d of
                        Some t \<Rightarrow> a @ [\<lparr>id' = ''dark'', title = ''Dark Theme'',
                                         variant = dark, theme = t\<rparr>]
                      | None \<Rightarrow> a))
             | None \<Rightarrow> themes0)
      in if length themes1 = 0
         then themes1 @ [\<lparr>id' = ''light'', title = ''Default Theme'',
                          variant = light, theme = lightTheme\<rparr>]
         else themes1)"

text \<open>
  \<open>createApp\<close> takes the imported table \<open>defaultSystemIcons\<close> as a parameter. Object
  spread is map override, the right operand winning per key.
\<close>

definition createApp ::
  "(string \<rightharpoonup> 'i) \<Rightarrow> ('c, 'i, 't) AppOptions option \<Rightarrow> error + ('c, 'i, 't) AppImpl" where
  "createApp defaultSystemIcons options =
     (let apis0 = (case Option.bind options opt_apis of
                     Some a \<Rightarrow> a
                   | None \<Rightarrow> ApiRegistry_from []);
          icons0 = defaultSystemIcons ++
                     (case Option.bind options opt_icons of Some m \<Rightarrow> m | None \<Rightarrow> Map.empty);
          plugins0 = (case Option.bind options opt_plugins of Some ps \<Rightarrow> ps | None \<Rightarrow> []);
          components0 =
            (case Option.bind (Option.bind options opt_components) (\<lambda>c. c) of
               Some c \<Rightarrow> \<lparr>NotFoundErrorPage = c\<rparr>
             | None \<Rightarrow> \<lparr>NotFoundErrorPage = DefaultNotFoundPage\<rparr>);
          themes0 = createApp_themes (Option.bind options opt_themes);
          app = \<lparr>apis = Some apis0, icons = icons0, plugins = plugins0,
                 components = components0, themes = themes0\<rparr>
      in case verify app of
           (Inl e, app') \<Rightarrow> Inl e
         | (Inr u, app') \<Rightarrow> Inr app')"

subsection \<open>\<open>AppImpl.getRootComponent\<close>\<close>

text \<open>
  The JSX elements the method builds. The arguments are the props in the order
  \<open>key\<close>, \<open>path\<close>, \<open>component\<close> (for a redirect: \<open>to\<close>), \<open>exact\<close>; a prop that the
  element does not pass is \<open>None\<close>.
\<close>

datatype 'c element =
    Route "string option" "string option" "'c component" "bool option"
  | Redirect "string option" "string option" RoutePath "bool option"

text \<open>
  The rendered tree. React flattens the array \<open>{routes}\<close> into the children of the
  \<open>Switch\<close>, so its children are the routes followed by the last \<open>Route\<close>.
\<close>

datatype 'c rendered =
    Switch "'c element list"
  | ApiProvider ApiHolder "'c rendered"

fun switch_children :: "'c rendered \<Rightarrow> 'c element list" where
  "switch_children (Switch children) = children"
| "switch_children (ApiProvider holder r) = switch_children r"

text \<open>
  The body of the inner loop: the switch on \<open>output.type\<close>, acting on the two arrays
  \<open>routes\<close> and \<open>registeredFeatureFlags\<close>. \<open>options = {}\<close> and \<open>exact = true\<close> are the
  destructuring defaults, taken when the property is absent.
\<close>

fun switch_output ::
  "'c BackstagePlugin \<Rightarrow> 'c PluginOutput \<Rightarrow>
   'c element list \<times> FeatureFlagsRegistryItem list \<Rightarrow>
   'c element list \<times> FeatureFlagsRegistryItem list" where
  "switch_output plugin (RouteOutput p c opts) (routes, flags) =
     (let options = (case opts of Some x \<Rightarrow> x | None \<Rightarrow> \<lparr>exact = None\<rparr>);
          exact0 = (case exact options of Some b \<Rightarrow> b | None \<Rightarrow> True)
      in (routes @ [Route (Some p) (Some p) c (Some exact0)], flags))"
| "switch_output plugin (NavTargetComponentOutput target c opts) (routes, flags) =
     (let options = (case opts of Some x \<Rightarrow> x | None \<Rightarrow> \<lparr>exact = None\<rparr>);
          exact0 = (case exact options of Some b \<Rightarrow> b | None \<Rightarrow> True)
      in (routes @ [Route (Some (getId plugin @ ''-'' @ path target)) (Some (path target))
                      c (Some exact0)], flags))"
| "switch_output plugin (RedirectRouteOutput p target opts) (routes, flags) =
     (let options = (case opts of Some x \<Rightarrow> x | None \<Rightarrow> \<lparr>exact = None\<rparr>);
          exact0 = (case exact options of Some b \<Rightarrow> b | None \<Rightarrow> True)
      in (routes @ [Redirect (Some p) (Some p) target (Some exact0)], flags))"
| "switch_output plugin (FeatureFlagOutput n) (routes, flags) =
     (routes, flags @ [\<lparr>pluginId = getId plugin, name = n\<rparr>])"
| "switch_output plugin (OtherOutput t) (routes, flags) = (routes, flags)"

fun outputs_loop ::
  "'c BackstagePlugin \<Rightarrow> 'c PluginOutput list \<Rightarrow>
   'c element list \<times> FeatureFlagsRegistryItem list \<Rightarrow>
   'c element list \<times> FeatureFlagsRegistryItem list" where
  "outputs_loop plugin [] acc = acc"
| "outputs_loop plugin (out # rest) acc = outputs_loop plugin rest (switch_output plugin out acc)"

fun plugins_loop ::
  "'c BackstagePlugin list \<Rightarrow>
   'c element list \<times> FeatureFlagsRegistryItem list \<Rightarrow>
   'c element list \<times> FeatureFlagsRegistryItem list" where
  "plugins_loop [] acc = acc"
| "plugins_loop (plugin # rest) acc =
     plugins_loop rest (outputs_loop plugin (output' plugin) acc)"

definition login_route :: "'c element" where
  "login_route = Route (Some ''login'') (Some ''/login'') LoginPage (Some True)"

definition not_found_route :: "'c component \<Rightarrow> 'c element" where
  "not_found_route c = Route None None c None"

text \<open>
  The method returns a function that returns \<open>rendered\<close>; the model returns the tree
  and the heap after the call.
\<close>

definition getRootComponent ::
  "('c, 'i, 't) AppImpl \<Rightarrow> heap \<Rightarrow> 'c rendered \<times> heap" where
  "getRootComponent this h =
     (case plugins_loop (plugins this) ([], []) of
        (routes, registeredFeatureFlags) \<Rightarrow>
          (let FeatureFlags = (case apis this of
                                 Some a \<Rightarrow> get a featureFlagsApiRef
                               | None \<Rightarrow> None);
               h1 = (case FeatureFlags of
                       Some ff \<Rightarrow> h(ff := registeredFeatureFlags)
                     | None \<Rightarrow> h);
               routes1 = routes @ [login_route];
               rendered0 = Switch (routes1 @
                             [not_found_route (NotFoundErrorPage (components this))]);
               rendered1 = (case apis this of
                              Some a \<Rightarrow> ApiProvider a rendered0
                            | None \<Rightarrow> rendered0)
           in (rendered1, h1)))"

text \<open>
  The two lists that a build of the root component is specified to produce, written
  from the description of the assembler rather than from its loops: for each plugin in
  installation order and each of its descriptors in declaration order, the route entry
  of a route, nav-target or redirect descriptor, respectively the registry item of a
  feature-flag descriptor. \<open>exact_or_default\<close> is the rule for the \<open>exact\<close> flag: true
  when \<open>options\<close> or \<open>options.exact\<close> is omitted, the supplied value otherwise.
\<close>

fun exact_or_default :: "RouteOptions option \<Rightarrow> bool" where
  "exact_or_default None = True"
| "exact_or_default (Some opts) = (case exact opts of None \<Rightarrow> True | Some b \<Rightarrow> b)"

fun declared_route :: "'c BackstagePlugin \<Rightarrow> 'c PluginOutput \<Rightarrow> 'c element list" where
  "declared_route plugin (RouteOutput p c opts) =
     [Route (Some p) (Some p) c (Some (exact_or_default opts))]"
| "declared_route plugin (NavTargetComponentOutput target c opts) =
     [Route (Some (getId plugin @ ''-'' @ path target)) (Some (path target)) c
        (Some (exact_or_default opts))]"
| "declared_route plugin (RedirectRouteOutput p target opts) =
     [Redirect (Some p) (Some p) target (Some (exact_or_default opts))]"
| "declared_route plugin (FeatureFlagOutput n) = []"
| "declared_route plugin (OtherOutput t) = []"

definition declared_routes :: "'c BackstagePlugin list \<Rightarrow> 'c element list" where
  "declared_routes ps =
     concat (map (\<lambda>plugin. concat (map (declared_route plugin) (output' plugin))) ps)"

fun declared_flag :: "'c BackstagePlugin \<Rightarrow> 'c PluginOutput \<Rightarrow> FeatureFlagsRegistryItem list" where
  "declared_flag plugin (FeatureFlagOutput n) = [\<lparr>pluginId = getId plugin, name = n\<rparr>]"
| "declared_flag plugin out = []"

definition declared_flags :: "'c BackstagePlugin list \<Rightarrow> FeatureFlagsRegistryItem list" where
  "declared_flags ps =
     concat (map (\<lambda>plugin. concat (map (declared_flag plugin) (output' plugin))) ps)"

definition recognized :: "'c PluginOutput \<Rightarrow> bool" where
  "recognized out \<longleftrightarrow>
     output_type out \<in> {''route'', ''nav-target-component'', ''redirect-route'', ''feature-flag''}"

section \<open>The template preparer: \<open>scaffolder/stages/prepare/github.ts\<close>\<close>

subsection \<open>External collaborators\<close>

text \<open>
  \<open>Git.fromAuth\<close> builds the client from the credentials and the logger; an argument
  that is not passed is \<open>None\<close>.
\<close>

datatype 'l Git = Git_fromAuth "string option" "string option" 'l

text \<open>
  The three effectful calls of \<open>prepare\<close>: \<open>git.clone({url, dir, ref})\<close>,
  \<open>fs.move(src, dest)\<close> and \<open>fs.rmdir(path)\<close>.
\<close>

datatype 'l call =
    Clone "'l Git" string string string
  | Move string string
  | Rmdir string

record ParsedGitUrl =
  filepath :: string
  ref :: string
  toString :: "string \<Rightarrow> string"

text \<open>
  The libraries \<open>prepare\<close> calls are parameters: the URL parser (which may throw), the
  two functions of the path module, and \<open>run\<close>, which says what a call does to the
  world and whether its promise is rejected (\<open>Inl\<close>) or fulfilled. Of the parsed URL
  the method reads the subpath \<open>filepath\<close>, the \<open>ref\<close> and \<open>toString(protocol)\<close>.
  \<open>PreparerOptions\<close> is modelled from the spec: the URL, the workspace path and the
  log sink.
\<close>

record ('w, 'e, 'l) externals =
  parseGitUrl :: "string \<Rightarrow> 'e + ParsedGitUrl"
  path_join :: "string list \<Rightarrow> string"
  path_resolve :: "string list \<Rightarrow> string"
  run :: "'l call \<Rightarrow> 'w \<Rightarrow> ('e + unit) \<times> 'w"

record config =
  token :: "string option"

record 'l PreparerOptions =
  url :: string
  workspacePath :: string
  logger :: 'l

text \<open>The state is the world together with the calls made so far, oldest first.\<close>

definition perform ::
  "('w, 'e, 'l) externals \<Rightarrow> 'l call \<Rightarrow> 'w \<times> 'l call list \<Rightarrow>
   ('e + unit) \<times> ('w \<times> 'l call list)" where
  "perform env c s = (case run env c (fst s) of (r, w) \<Rightarrow> (r, (w, snd s @ [c])))"

subsection \<open>\<open>GithubPreparer.prepare\<close>\<close>

text \<open>
  \<open>this.config.token ? \<dots> : \<dots>\<close> tests the token for truthiness: an absent token and
  the empty string both take the second branch.
\<close>

definition prepare ::
  "('w, 'e, 'l) externals \<Rightarrow> config \<Rightarrow> 'l PreparerOptions \<Rightarrow> 'w \<times> 'l call list \<Rightarrow>
   ('e + unit) \<times> ('w \<times> 'l call list)" where
  "prepare env this opts s =
     (case parseGitUrl env (url opts) of
        Inl e \<Rightarrow> (Inl e, s)
      | Inr parsedGitUrl \<Rightarrow>
          (let checkoutPath = path_join env [workspacePath opts, ''checkout''];
               targetPath = path_join env [workspacePath opts, ''template''];
               fullPathToTemplate = path_resolve env [checkoutPath, filepath parsedGitUrl];
               git = (case token this of
                        Some t \<Rightarrow>
                          if t \<noteq> [] then Git_fromAuth (Some t) (Some ''x-oauth-basic'') (logger opts)
                          else Git_fromAuth None None (logger opts)
                      | None \<Rightarrow> Git_fromAuth None None (logger opts))
           in case perform env (Clone git (toString parsedGitUrl ''https'') checkoutPath
                                  (ref parsedGitUrl)) s of
                (Inl e, s1) \<Rightarrow> (Inl e, s1)
              | (Inr u, s1) \<Rightarrow>
                  (case perform env (Move fullPathToTemplate targetPath) s1 of
                     (Inl e, s2) \<Rightarrow> (Inl e, s2)
                   | (Inr u, s2) \<Rightarrow>
                       (case perform env (Rmdir (path_join env [targetPath, ''.git''])) s2 of
                          (r, s3) \<Rightarrow> (Inr (), s3)))))"

subsection \<open>The path module\<close>










subsection \<open>A small world to run the preparer in\<close>

text \<open>
  A world is the list of paths that exist. Cloning from the host \<open>unreachable\<close> fails;
  any other clone creates its directory with \<open>.git\<close> and \<open>templates/foo\<close> inside.
  Moving renames the source and everything below it, removing deletes one path, and
  both fail on a path that does not exist. Paths are joined with a slash, empty
  segments dropped.
\<close>

fun demo_join :: "string list \<Rightarrow> string" where
  "demo_join [] = []"
| "demo_join [a] = a"
| "demo_join (a # b # rest) = (if b = [] then demo_join (a # rest)
                               else demo_join ((a @ ''/'' @ b) # rest))"

fun demo_run :: "unit call \<Rightarrow> string list \<Rightarrow> (string + unit) \<times> string list" where
  "demo_run (Clone git u d r) w =
     (if u = ''https://unreachable/org/repo'' then (Inl ''clone failed'', w)
      else (Inr (), w @ [d, d @ ''/.git'', d @ ''/templates/foo'']))"
| "demo_run (Move src dst) w =
     (if src \<in> set w
      then (Inr (), map (\<lambda>p. if take (length src) p = src
                                then dst @ drop (length src) p else p) w)
      else (Inl ''no such directory'', w))"
| "demo_run (Rmdir p) w =
     (if p \<in> set w then (Inr (), removeAll p w) else (Inl ''no such directory'', w))"

definition demo_parse :: "string \<Rightarrow> string + ParsedGitUrl" where
  "demo_parse u =
     (if u = [] then Inl ''invalid url''
      else if u = ''https://example.com/org/repo/tree/main/templates/foo''
      then Inr \<lparr>filepath = ''templates/foo'', ref = ''main'',
                toString = (\<lambda>proto. proto @ ''://example.com/org/repo'')\<rparr>
      else if u = ''https://example.com/org/repo/tree/main/missing''
      then Inr \<lparr>filepath = ''missing'', ref = ''main'',
                toString = (\<lambda>proto. proto @ ''://example.com/org/repo'')\<rparr>
      else Inr \<lparr>filepath = [], ref = [], toString = (\<lambda>proto. proto @ drop 5 u)\<rparr>)"

definition demo_env :: "(string list, string, unit) externals" where
  "demo_env = \<lparr>parseGitUrl = demo_parse, path_join = demo_join, path_resolve = demo_join,
               run = demo_run\<rparr>"



section \<open>Sample inputs\<close>

definition demo_catalog :: "nat BackstagePlugin" where
  "demo_catalog =
     \<lparr>getId = ''catalog'',
      output' = [RouteOutput ''/catalog'' (Component 1) None,
                 FeatureFlagOutput ''catalog-beta'',
                 OtherOutput ''widget'',
                 RedirectRouteOutput ''/'' ''/catalog'' (Some \<lparr>exact = Some False\<rparr>)]\<rparr>"

definition demo_docs :: "nat BackstagePlugin" where
  "demo_docs =
     \<lparr>getId = ''docs'',
      output' = [NavTargetComponentOutput \<lparr>path = ''/docs''\<rparr> (Component 2)
                   (Some \<lparr>exact = None\<rparr>),
                 FeatureFlagOutput ''docs-search'']\<rparr>"

definition demo_plugins :: "nat BackstagePlugin list" where
  "demo_plugins = [demo_catalog, demo_docs]"

definition demo_app :: "ApiHolder option \<Rightarrow> (nat, unit, unit) AppImpl" where
  "demo_app holder =
     \<lparr>apis = holder, icons = Map.empty, plugins = demo_plugins,
      components = \<lparr>NotFoundErrorPage = DefaultNotFoundPage\<rparr>, themes = []\<rparr>"

definition demo_options ::
  "nat BackstagePlugin list option \<Rightarrow> unit themes_option option \<Rightarrow> (nat, unit, unit) AppOptions" where
  "demo_options ps ths =
     \<lparr>opt_apis = None, opt_icons = None, opt_plugins = ps, opt_components = None,
      opt_themes = ths\<rparr>"

definition plugin_with_id :: "string \<Rightarrow> nat BackstagePlugin" where
  "plugin_with_id i = \<lparr>getId = i, output' = []\<rparr>"

section \<open>Properties of \<open>verify\<close> and \<open>createApp\<close>\<close>

lemma createApp_Inr_themes:
  "createApp defaultIcons options = Inr app \<Longrightarrow>
   themes app = createApp_themes (Option.bind options opt_themes)"
  by (auto simp: createApp_def verify_def Let_def split: sum.splits)

lemma verify_loop_distinct:
  "distinct (map getId ps) \<Longrightarrow> set (map getId ps) \<inter> seen = {} \<Longrightarrow>
   verify_loop ps seen = Inr (seen \<union> set (map getId ps))"
  by (induction ps arbitrary: seen) (auto simp: Let_def)

lemma verify_loop_duplicate:
  "distinct (map getId pre) \<Longrightarrow> set (map getId pre) \<inter> seen = {} \<Longrightarrow>
   getId p \<in> seen \<union> set (map getId pre) \<Longrightarrow>
   verify_loop (pre @ p # rest) seen = Inl (Error (duplicate_message (getId p)))"
proof (induction pre arbitrary: seen)
  case Nil
  then show ?case by (simp add: Let_def)
next
  case (Cons q pre)
  then show ?case by (auto simp: Let_def)
qed

lemma verify_loop_first_duplicate:
  assumes "map getId ps = pre @ d # rest" "distinct pre" "d \<in> set pre"
  shows "verify_loop ps {} = Inl (Error (duplicate_message d))"
proof -
  from assms(1) obtain qs p rs where ps: "ps = qs @ p # rs" and qs: "map getId qs = pre"
    and p: "getId p = d"
    by (auto simp: map_eq_append_conv map_eq_Cons_conv)
  show ?thesis
    unfolding ps using verify_loop_duplicate[of qs "{}" p rs] assms(2,3) qs p by simp
qed

lemma createApp_plugins:
  "createApp defaultIcons options =
     (case verify_loop (case Option.bind options opt_plugins of Some ps \<Rightarrow> ps | None \<Rightarrow> []) {} of
        Inl e \<Rightarrow> Inl e
      | Inr s \<Rightarrow> Inr \<lparr>apis = Some (case Option.bind options opt_apis of Some a \<Rightarrow> a
                                    | None \<Rightarrow> ApiRegistry_from []),
                      icons = defaultIcons ++ (case Option.bind options opt_icons of Some m \<Rightarrow> m
                                         | None \<Rightarrow> Map.empty),
                      plugins = (case Option.bind options opt_plugins of Some ps \<Rightarrow> ps | None \<Rightarrow> []),
                      components = (case Option.bind (Option.bind options opt_components) (\<lambda>c. c) of
                                      Some c \<Rightarrow> \<lparr>NotFoundErrorPage = c\<rparr>
                                    | None \<Rightarrow> \<lparr>NotFoundErrorPage = DefaultNotFoundPage\<rparr>),
                      themes = createApp_themes (Option.bind options opt_themes)\<rparr>)"
  by (simp add: createApp_def verify_def Let_def split: sum.splits)

text \<open>
  Claim C2. When the plugin ids are pairwise distinct, \<open>verify\<close> returns normally.
  When they are not, the scan stops at the first position whose id has occurred before:
  if the ids are \<open>pre @ d # rest\<close> with \<open>pre\<close> free of repetitions and \<open>d\<close> in \<open>pre\<close>,
  \<open>verify\<close> throws the error whose message is \<open>Duplicate plugin found 'd'\<close>, and
  \<open>createApp\<close> ends with that same error instead of returning an application. Every
  list with a repetition has such a decomposition.
\<close>

theorem verify_duplicate_plugin_ids:
  "(distinct (map getId (plugins app)) \<longrightarrow> fst (verify app) = Inr ()) \<and>
   (map getId (plugins app) = pre @ d # rest \<and> distinct pre \<and> d \<in> set pre \<longrightarrow>
      fst (verify app) =
        Inl (Error (''Duplicate plugin found '' @ [CHR 0x27] @ d @ [CHR 0x27]))) \<and>
   (\<not> distinct (map getId (plugins app)) \<longrightarrow>
      (\<exists>xs y ys. map getId (plugins app) = xs @ y # ys \<and> distinct xs \<and> y \<in> set xs \<and>
         fst (verify app) =
           Inl (Error (''Duplicate plugin found '' @ [CHR 0x27] @ y @ [CHR 0x27])))) \<and>
   (Option.bind options opt_plugins = Some ps \<and> map getId ps = pre @ d # rest \<and>
      distinct pre \<and> d \<in> set pre \<longrightarrow>
      createApp defaultIcons options =
        Inl (Error (''Duplicate plugin found '' @ [CHR 0x27] @ d @ [CHR 0x27])))"
proof (intro conjI impI)
  assume "distinct (map getId (plugins app))"
  then show "fst (verify app) = Inr ()"
    using verify_loop_distinct[of "plugins app" "{}"] by (simp add: verify_def)
next
  assume "map getId (plugins app) = pre @ d # rest \<and> distinct pre \<and> d \<in> set pre"
  then show "fst (verify app) =
      Inl (Error (''Duplicate plugin found '' @ [CHR 0x27] @ d @ [CHR 0x27]))"
    using verify_loop_first_duplicate[of "plugins app" pre d rest]
    by (simp add: verify_def duplicate_message_def)
next
  assume "\<not> distinct (map getId (plugins app))"
  then obtain xs y ys where dec: "map getId (plugins app) = xs @ y # ys" "distinct xs" "y \<in> set xs"
    using not_distinct_conv_prefix[of "map getId (plugins app)"] by blast
  then have "fst (verify app) =
      Inl (Error (''Duplicate plugin found '' @ [CHR 0x27] @ y @ [CHR 0x27]))"
    using verify_loop_first_duplicate[of "plugins app" xs y ys]
    by (simp add: verify_def duplicate_message_def)
  with dec show "\<exists>xs y ys. map getId (plugins app) = xs @ y # ys \<and> distinct xs \<and> y \<in> set xs \<and>
         fst (verify app) =
           Inl (Error (''Duplicate plugin found '' @ [CHR 0x27] @ y @ [CHR 0x27]))"
    by blast
next
  assume "Option.bind options opt_plugins = Some ps \<and> map getId ps = pre @ d # rest \<and>
      distinct pre \<and> d \<in> set pre"
  then show "createApp defaultIcons options =
      Inl (Error (''Duplicate plugin found '' @ [CHR 0x27] @ d @ [CHR 0x27]))"
    using verify_loop_first_duplicate[of ps pre d rest]
    by (simp add: createApp_plugins duplicate_message_def)
qed

theorem verify_duplicate_plugin_ids_witness:
  "fst (verify (demo_app None)) = Inr () \<and>
   fst (verify ((demo_app None)\<lparr>plugins := map plugin_with_id [''a'', ''b'', ''b'', ''a'']\<rparr>)) =
     Inl (Error (''Duplicate plugin found '' @ [CHR 0x27] @ ''b'' @ [CHR 0x27])) \<and>
   createApp Map.empty
     (Some (demo_options (Some (map plugin_with_id [''a'', ''b'', ''b'', ''a''])) None)) =
     Inl (Error (''Duplicate plugin found '' @ [CHR 0x27] @ ''b'' @ [CHR 0x27]))"
proof -
  let ?ps = "map plugin_with_id [''a'', ''b'', ''b'', ''a'']"
  have ids: "map getId ?ps = [''a'', ''b''] @ ''b'' # [''a'']"
    by (simp add: plugin_with_id_def)
  have d1: "distinct (map getId (plugins (demo_app None)))"
    by (simp add: demo_app_def demo_plugins_def demo_catalog_def demo_docs_def)
  have d2: "distinct [''a'', ''b'']" "''b'' \<in> set [''a'', ''b'']"
    by simp_all
  note inst = verify_duplicate_plugin_ids
    [where pre = "[''a'', ''b'']" and d = "''b''" and rest = "[''a'']"
       and options = "Some (demo_options (Some ?ps) None)" and ps = ?ps
       and defaultIcons = Map.empty]
  have 1: "fst (verify (demo_app None)) = Inr ()"
    using inst[where app = "demo_app None"] d1 by blast
  have 2: "fst (verify ((demo_app None)\<lparr>plugins := ?ps\<rparr>)) =
     Inl (Error (''Duplicate plugin found '' @ [CHR 0x27] @ ''b'' @ [CHR 0x27]))"
    using inst[where app = "(demo_app None)\<lparr>plugins := ?ps\<rparr>"] ids d2 by simp
  have 3: "createApp Map.empty (Some (demo_options (Some ?ps) None)) =
     Inl (Error (''Duplicate plugin found '' @ [CHR 0x27] @ ''b'' @ [CHR 0x27]))"
    using inst[where app = "demo_app None"] ids d2 by (simp add: demo_options_def)
  show ?thesis using 1 2 3 by blast
qed

text \<open>
  Claim C9. \<open>verify\<close> writes to no field of the application: the object after the call
  is the object before it, field by field, whether the call returns or throws.
\<close>

theorem verify_leaves_application_unchanged:
  "snd (verify app) = app \<and>
   apis (snd (verify app)) = apis app \<and>
   icons (snd (verify app)) = icons app \<and>
   plugins (snd (verify app)) = plugins app \<and>
   components (snd (verify app)) = components app \<and>
   themes (snd (verify app)) = themes app"
  by (simp add: verify_def split: sum.splits)

text \<open>
  Claim C1, at the explicit list of length 0: \<open>createApp\<close> with \<open>themes: []\<close> returns an
  application whose theme list is the one default light theme, not the empty list that
  was supplied. The test \<open>themes.length === 0\<close> follows the whole \<open>if\<close>/\<open>else\<close>, so it
  also covers the branch that copies an explicit list.
\<close>

theorem explicit_empty_theme_list_counterexample:
  "createApp Map.empty (Some (demo_options None (Some (ThemeArray [])))) =
     Inr \<lparr>apis = Some [], icons = Map.empty, plugins = [],
          components = \<lparr>NotFoundErrorPage = DefaultNotFoundPage\<rparr>,
          themes = [\<lparr>id' = ''light'', title = ''Default Theme'', variant = light,
                     theme = lightTheme\<rparr>]\<rparr> \<and>
   [\<lparr>id' = ''light'', title = ''Default Theme'', variant = light, theme = lightTheme\<rparr>] \<noteq>
     ([] :: unit AppTheme list)"
  by (simp add: createApp_def verify_def createApp_themes_def ApiRegistry_from_def
      demo_options_def)

text \<open>
  Claim C1, amended. Whenever \<open>createApp\<close> returns an application: \<open>themes: {light: T1}\<close>
  alone gives the single entry with id \<open>light\<close>, title \<open>Light Theme\<close>, variant light and
  theme \<open>T1\<close>; no \<open>themes\<close> at all, or a pair with neither \<open>light\<close> nor \<open>dark\<close>, gives the
  single default light theme; a non-empty explicit list is the theme list unchanged; the
  empty explicit list gives the single default light theme.
\<close>

theorem createApp_theme_resolution:
  "createApp defaultIcons options = Inr app \<Longrightarrow>
   (Option.bind options opt_themes = Some (ThemePair (Some T1) None) \<longrightarrow>
      themes app = [\<lparr>id' = ''light'', title = ''Light Theme'', variant = light, theme = T1\<rparr>]) \<and>
   (Option.bind options opt_themes = None \<or>
    Option.bind options opt_themes = Some (ThemePair None None) \<longrightarrow>
      themes app = [\<lparr>id' = ''light'', title = ''Default Theme'', variant = light,
                     theme = lightTheme\<rparr>]) \<and>
   (Option.bind options opt_themes = Some (ThemeArray ts) \<and> ts \<noteq> [] \<longrightarrow> themes app = ts) \<and>
   (Option.bind options opt_themes = Some (ThemeArray []) \<longrightarrow>
      themes app = [\<lparr>id' = ''light'', title = ''Default Theme'', variant = light,
                     theme = lightTheme\<rparr>])"
  by (auto dest!: createApp_Inr_themes simp: createApp_themes_def)

theorem createApp_theme_resolution_witness:
  "(case createApp Map.empty (Some (demo_options None (Some (ThemePair (Some (Theme ())) None)))) of
      Inr app \<Rightarrow> themes app = [\<lparr>id' = ''light'', title = ''Light Theme'', variant = light,
                                 theme = Theme ()\<rparr>]
    | Inl e \<Rightarrow> False) \<and>
   (case createApp Map.empty (None :: (nat, unit, unit) AppOptions option) of
      Inr app \<Rightarrow> themes app = [\<lparr>id' = ''light'', title = ''Default Theme'', variant = light,
                                 theme = lightTheme\<rparr>]
    | Inl e \<Rightarrow> False) \<and>
   (case createApp Map.empty (Some (demo_options None (Some (ThemeArray
        [\<lparr>id' = ''night'', title = ''Night'', variant = dark, theme = Theme ()\<rparr>,
         \<lparr>id' = ''day'', title = ''Day'', variant = light, theme = lightTheme\<rparr>])))) of
      Inr app \<Rightarrow> themes app =
        [\<lparr>id' = ''night'', title = ''Night'', variant = dark, theme = Theme ()\<rparr>,
         \<lparr>id' = ''day'', title = ''Day'', variant = light, theme = lightTheme\<rparr>]
    | Inl e \<Rightarrow> False) \<and>
   (case createApp Map.empty (Some (demo_options None (Some (ThemeArray [])))) of
      Inr app \<Rightarrow> themes app = [\<lparr>id' = ''light'', title = ''Default Theme'', variant = light,
                                 theme = lightTheme\<rparr>]
    | Inl e \<Rightarrow> False)"
proof -
  let ?o1 = "Some (demo_options None (Some (ThemePair (Some (Theme ())) None)))"
  let ?o2 = "None :: (nat, unit, unit) AppOptions option"
  let ?ts = "[\<lparr>id' = ''night'', title = ''Night'', variant = dark, theme = Theme ()\<rparr>,
         \<lparr>id' = ''day'', title = ''Day'', variant = light, theme = lightTheme\<rparr>]"
  let ?o3 = "Some (demo_options None (Some (ThemeArray ?ts)))"
  let ?o4 = "Some (demo_options None (Some (ThemeArray [])))"
  obtain a1 where a1: "createApp Map.empty ?o1 = Inr a1"
    by (simp add: createApp_plugins demo_options_def)
  obtain a2 where a2: "createApp Map.empty ?o2 = Inr a2"
    by (simp add: createApp_plugins)
  obtain a3 where a3: "createApp Map.empty ?o3 = Inr a3"
    by (simp add: createApp_plugins demo_options_def)
  obtain a4 where a4: "createApp Map.empty ?o4 = Inr a4"
    by (simp add: createApp_plugins demo_options_def)
  have 1: "themes a1 = [\<lparr>id' = ''light'', title = ''Light Theme'', variant = light,
                                 theme = Theme ()\<rparr>]"
    using createApp_theme_resolution[OF a1, where ?T1.0 = "Theme ()" and ts = "[]"]
    by (simp add: demo_options_def)
  have 2: "themes a2 = [\<lparr>id' = ''light'', title = ''Default Theme'', variant = light,
                                 theme = lightTheme\<rparr>]"
    using createApp_theme_resolution[OF a2, where ?T1.0 = "Theme ()" and ts = "[]"]
    by simp
  have 3: "themes a3 = ?ts"
    using createApp_theme_resolution[OF a3, where ?T1.0 = "Theme ()" and ts = ?ts]
    by (simp add: demo_options_def)
  have 4: "themes a4 = [\<lparr>id' = ''light'', title = ''Default Theme'', variant = light,
                                 theme = lightTheme\<rparr>]"
    using createApp_theme_resolution[OF a4, where ?T1.0 = "Theme ()" and ts = "[]"]
    by (simp add: demo_options_def)
  show ?thesis
    unfolding a1 a2 a3 a4 using 1 2 3 4 by simp
qed

text \<open>
  Claim C10. Whenever \<open>createApp\<close> returns an application and \<open>themes\<close> is a pair with both
  \<open>light\<close> and \<open>dark\<close> present, the theme list has exactly two entries: first the light
  one (id \<open>light\<close>, title \<open>Light Theme\<close>, variant light), then the dark one (id \<open>dark\<close>,
  title \<open>Dark Theme\<close>, variant dark).
\<close>

theorem createApp_light_dark_pair:
  "createApp defaultIcons options = Inr app \<Longrightarrow>
   Option.bind options opt_themes = Some (ThemePair (Some L) (Some D)) \<Longrightarrow>
   themes app =
     [\<lparr>id' = ''light'', title = ''Light Theme'', variant = light, theme = L\<rparr>,
      \<lparr>id' = ''dark'', title = ''Dark Theme'', variant = dark, theme = D\<rparr>]"
  by (auto dest!: createApp_Inr_themes simp: createApp_themes_def)

theorem createApp_light_dark_pair_witness:
  "(case createApp Map.empty
           (Some (demo_options None (Some (ThemePair (Some lightTheme) (Some (Theme ())))))) of
      Inr app \<Rightarrow> themes app =
        [\<lparr>id' = ''light'', title = ''Light Theme'', variant = light, theme = lightTheme\<rparr>,
         \<lparr>id' = ''dark'', title = ''Dark Theme'', variant = dark, theme = Theme ()\<rparr>]
    | Inl e \<Rightarrow> False)"
proof -
  let ?o = "Some (demo_options None (Some (ThemePair (Some lightTheme) (Some (Theme ())))))"
  obtain a where a: "createApp Map.empty ?o = Inr a"
    by (simp add: createApp_plugins demo_options_def)
  have "Option.bind ?o opt_themes = Some (ThemePair (Some lightTheme) (Some (Theme ())))"
    by (simp add: demo_options_def)
  from createApp_light_dark_pair[OF a this] show ?thesis
    unfolding a by simp
qed

section \<open>Properties of \<open>getRootComponent\<close>\<close>

lemma switch_output_declared:
  "switch_output plugin out (routes, flags) =
     (routes @ declared_route plugin out, flags @ declared_flag plugin out)"
  by (cases out) (auto simp: Let_def split: option.splits)

lemma outputs_loop_declared:
  "outputs_loop plugin outs (routes, flags) =
     (routes @ concat (map (declared_route plugin) outs),
      flags @ concat (map (declared_flag plugin) outs))"
  by (induction outs arbitrary: routes flags) (simp_all add: switch_output_declared)

lemma plugins_loop_declared:
  "plugins_loop ps (routes, flags) =
     (routes @ declared_routes ps, flags @ declared_flags ps)"
  by (induction ps arbitrary: routes flags)
     (simp_all add: outputs_loop_declared declared_routes_def declared_flags_def)

lemma getRootComponent_children:
  "switch_children (fst (getRootComponent app h)) =
     declared_routes (plugins app) @
     [login_route, not_found_route (NotFoundErrorPage (components app))]"
  by (simp add: getRootComponent_def plugins_loop_declared Let_def split: option.splits)

lemma getRootComponent_heap:
  "snd (getRootComponent app h) =
     (case (case apis app of Some a \<Rightarrow> get a featureFlagsApiRef | None \<Rightarrow> None) of
        Some ff \<Rightarrow> h(ff := declared_flags (plugins app))
      | None \<Rightarrow> h)"
  by (simp add: getRootComponent_def plugins_loop_declared Let_def split: option.splits)

lemma getRootComponent_eq:
  "getRootComponent app h =
     ((let r = Switch (declared_routes (plugins app) @
                 [login_route, not_found_route (NotFoundErrorPage (components app))])
       in case apis app of Some a \<Rightarrow> ApiProvider a r | None \<Rightarrow> r),
      (case (case apis app of Some a \<Rightarrow> get a featureFlagsApiRef | None \<Rightarrow> None) of
         Some ff \<Rightarrow> h(ff := declared_flags (plugins app))
       | None \<Rightarrow> h))"
  by (simp add: getRootComponent_def plugins_loop_declared Let_def split: option.splits)

lemma unrecognized_declares_nothing:
  "\<not> recognized out \<Longrightarrow> declared_route plugin out = [] \<and> declared_flag plugin out = []"
  by (cases out) (simp_all add: recognized_def)

lemma concat_map_filter_nil:
  "(\<And>x. \<not> P x \<Longrightarrow> f x = []) \<Longrightarrow> concat (map f (filter P xs)) = concat (map f xs)"
  by (induction xs) auto

lemma declared_filter_recognized:
  "declared_routes (map (\<lambda>p. p\<lparr>output' := filter recognized (output' p)\<rparr>) ps) = declared_routes ps \<and>
   declared_flags (map (\<lambda>p. p\<lparr>output' := filter recognized (output' p)\<rparr>) ps) = declared_flags ps"
proof (induction ps)
  case Nil
  then show ?case by (simp add: declared_routes_def declared_flags_def)
next
  case (Cons p ps)
  have r: "concat (map (declared_route (p\<lparr>output' := filter recognized (output' p)\<rparr>))
                   (filter recognized (output' p))) =
           concat (map (declared_route p) (output' p))"
  proof -
    have "declared_route (p\<lparr>output' := filter recognized (output' p)\<rparr>) = declared_route p"
    proof
      fix out show "declared_route (p\<lparr>output' := filter recognized (output' p)\<rparr>) out =
          declared_route p out" by (cases out) simp_all
    qed
    then show ?thesis
      using concat_map_filter_nil[of recognized "declared_route p" "output' p"]
      by (simp add: unrecognized_declares_nothing)
  qed
  have f: "concat (map (declared_flag (p\<lparr>output' := filter recognized (output' p)\<rparr>))
                   (filter recognized (output' p))) =
           concat (map (declared_flag p) (output' p))"
  proof -
    have "declared_flag (p\<lparr>output' := filter recognized (output' p)\<rparr>) = declared_flag p"
    proof
      fix out show "declared_flag (p\<lparr>output' := filter recognized (output' p)\<rparr>) out =
          declared_flag p out" by (cases out) simp_all
    qed
    then show ?thesis
      using concat_map_filter_nil[of recognized "declared_flag p" "output' p"]
      by (simp add: unrecognized_declares_nothing)
  qed
  from Cons r f show ?case
    by (simp add: declared_routes_def declared_flags_def)
qed

text \<open>
  Claim C3. The children of the \<open>Switch\<close> that \<open>getRootComponent\<close> renders are the route
  entries of the plugins in installation order, those of one plugin in the order in
  which it declares its outputs, followed by exactly two more entries: the fixed
  \<open>/login\<close> route and, immediately after it and last, the catch-all route bound to the
  not-found component.
\<close>

theorem getRootComponent_route_order:
  "switch_children (fst (getRootComponent app h)) =
     concat (map (\<lambda>plugin. concat (map (declared_route plugin) (output' plugin))) (plugins app)) @
     [Route (Some ''login'') (Some ''/login'') LoginPage (Some True),
      Route None None (NotFoundErrorPage (components app)) None]"
  by (simp add: getRootComponent_children declared_routes_def login_route_def
      not_found_route_def)

text \<open>
  Claim C4. If the capability registry of the application holds a feature-flag provider,
  a build of the root component leaves the heap as it was except for that provider, whose
  registered-flags list becomes the list of \<open>{pluginId, name}\<close> items of the feature-flag
  outputs of the application's plugins, in plugin order and then output order. Nothing
  of the list it held before survives, in particular nothing that an earlier build (of
  any application) stored there. If there is no registry, or the registry holds no
  feature-flag provider, the build leaves the heap unchanged.
\<close>

theorem getRootComponent_feature_flags:
  "(apis app = Some holder \<and> get holder featureFlagsApiRef = Some ff \<longrightarrow>
      snd (getRootComponent app h) = h(ff := declared_flags (plugins app)) \<and>
      snd (getRootComponent app (snd (getRootComponent app0 h))) ff =
        declared_flags (plugins app)) \<and>
   (apis app = None \<or> (apis app = Some holder \<and> get holder featureFlagsApiRef = None) \<longrightarrow>
      snd (getRootComponent app h) = h)"
  by (auto simp: getRootComponent_heap)

theorem getRootComponent_feature_flags_witness:
  "snd (getRootComponent (demo_app (Some [(featureFlagsApiRef, 7)]))
         (\<lambda>a. [\<lparr>pluginId = ''old'', name = ''stale''\<rparr>])) 7 =
     [\<lparr>pluginId = ''catalog'', name = ''catalog-beta''\<rparr>,
      \<lparr>pluginId = ''docs'', name = ''docs-search''\<rparr>] \<and>
   snd (getRootComponent (demo_app (Some [(featureFlagsApiRef, 7)]))
         (\<lambda>a. [\<lparr>pluginId = ''old'', name = ''stale''\<rparr>])) 8 =
     [\<lparr>pluginId = ''old'', name = ''stale''\<rparr>] \<and>
   snd (getRootComponent (demo_app (Some [(OtherApiRef ''storage'', 7)]))
         (\<lambda>a. [\<lparr>pluginId = ''old'', name = ''stale''\<rparr>])) =
     (\<lambda>a. [\<lparr>pluginId = ''old'', name = ''stale''\<rparr>]) \<and>
   snd (getRootComponent (demo_app None)
         (\<lambda>a. [\<lparr>pluginId = ''old'', name = ''stale''\<rparr>])) =
     (\<lambda>a. [\<lparr>pluginId = ''old'', name = ''stale''\<rparr>])"
proof -
  let ?h = "\<lambda>a::addr. [\<lparr>pluginId = ''old'', name = ''stale''\<rparr>]"
  have fl: "declared_flags demo_plugins =
     [\<lparr>pluginId = ''catalog'', name = ''catalog-beta''\<rparr>,
      \<lparr>pluginId = ''docs'', name = ''docs-search''\<rparr>]"
    by (simp add: declared_flags_def demo_plugins_def demo_catalog_def demo_docs_def)
  have 1: "snd (getRootComponent (demo_app (Some [(featureFlagsApiRef, 7)])) ?h) =
      ?h(7 := declared_flags demo_plugins)"
    using getRootComponent_feature_flags[where app = "demo_app (Some [(featureFlagsApiRef, 7)])"
        and holder = "[(featureFlagsApiRef, 7)]" and ff = 7 and h = ?h
        and ?app0.0 = "demo_app None"]
    by (simp add: demo_app_def get_def)
  have 2: "snd (getRootComponent (demo_app (Some [(OtherApiRef ''storage'', 7)])) ?h) = ?h"
    using getRootComponent_feature_flags[where app = "demo_app (Some [(OtherApiRef ''storage'', 7)])"
        and holder = "[(OtherApiRef ''storage'', 7)]" and ff = 7 and h = ?h
        and ?app0.0 = "demo_app None"]
    by (simp add: demo_app_def get_def)
  have 3: "snd (getRootComponent (demo_app None) ?h) = ?h"
    using getRootComponent_feature_flags[where app = "demo_app None"
        and holder = "[]" and ff = 7 and h = ?h and ?app0.0 = "demo_app None"]
    by (simp add: demo_app_def)
  show ?thesis
    unfolding 1 2 3 by (simp add: fl)
qed

text \<open>
  Claim C6. For a route, nav-target and redirect descriptor the switch appends one entry
  whose \<open>exact\<close> flag is \<open>exact_or_default options\<close>: true when \<open>options\<close> is omitted, true
  when \<open>options.exact\<close> is omitted, and the supplied boolean otherwise. The entry of every
  descriptor of every installed plugin is among the routes of the root component.
\<close>

theorem route_exact_flag:
  "switch_output plugin (RouteOutput p c opts) (routes, flags) =
     (routes @ [Route (Some p) (Some p) c (Some (exact_or_default opts))], flags) \<and>
   switch_output plugin (NavTargetComponentOutput target c opts) (routes, flags) =
     (routes @ [Route (Some (getId plugin @ ''-'' @ path target)) (Some (path target)) c
                  (Some (exact_or_default opts))], flags) \<and>
   switch_output plugin (RedirectRouteOutput p t opts) (routes, flags) =
     (routes @ [Redirect (Some p) (Some p) t (Some (exact_or_default opts))], flags) \<and>
   exact_or_default None = True \<and>
   (exact ro = None \<longrightarrow> exact_or_default (Some ro) = True) \<and>
   (exact ro = Some b \<longrightarrow> exact_or_default (Some ro) = b) \<and>
   (plugin \<in> set (plugins app) \<and> out \<in> set (output' plugin) \<longrightarrow>
      set (declared_route plugin out) \<subseteq> set (switch_children (fst (getRootComponent app h))))"
proof -
  have "plugin \<in> set (plugins app) \<and> out \<in> set (output' plugin) \<longrightarrow>
      set (declared_route plugin out) \<subseteq> set (switch_children (fst (getRootComponent app h)))"
    by (auto simp: getRootComponent_children declared_routes_def)
  then show ?thesis
    by (simp add: switch_output_declared)
qed

theorem route_exact_flag_witness:
  "Route (Some ''/catalog'') (Some ''/catalog'') (Component 1) (Some True)
     \<in> set (switch_children (fst (getRootComponent (demo_app None) (\<lambda>a. [])))) \<and>
   Redirect (Some ''/'') (Some ''/'') ''/catalog'' (Some False)
     \<in> set (switch_children (fst (getRootComponent (demo_app None) (\<lambda>a. [])))) \<and>
   Route (Some ''docs-/docs'') (Some ''/docs'') (Component 2) (Some True)
     \<in> set (switch_children (fst (getRootComponent (demo_app None) (\<lambda>a. [])))) \<and>
   exact_or_default (Some \<lparr>exact = None\<rparr>) = True \<and>
   exact_or_default (Some \<lparr>exact = Some False\<rparr>) = False"
proof -
  let ?catalog = "demo_catalog"
  let ?docs = "demo_docs"
  let ?children = "switch_children (fst (getRootComponent (demo_app None) (\<lambda>a. [])))"
  have m: "?catalog \<in> set (plugins (demo_app None))" "?docs \<in> set (plugins (demo_app None))"
    by (simp_all add: demo_app_def demo_plugins_def)
  have o1: "RouteOutput ''/catalog'' (Component 1) None \<in> set (output' ?catalog)"
    and o2: "RedirectRouteOutput ''/'' ''/catalog'' (Some \<lparr>exact = Some False\<rparr>)
               \<in> set (output' ?catalog)"
    and o3: "NavTargetComponentOutput \<lparr>path = ''/docs''\<rparr> (Component 2) (Some \<lparr>exact = None\<rparr>)
               \<in> set (output' ?docs)"
    by (simp_all add: demo_catalog_def demo_docs_def)
  have 1: "set (declared_route ?catalog (RouteOutput ''/catalog'' (Component 1) None))
             \<subseteq> set ?children"
    using route_exact_flag[where plugin = ?catalog and app = "demo_app None"
        and out = "RouteOutput ''/catalog'' (Component 1) None" and h = "\<lambda>a. []"] m o1
    by blast
  have 2: "set (declared_route ?catalog
                  (RedirectRouteOutput ''/'' ''/catalog'' (Some \<lparr>exact = Some False\<rparr>)))
             \<subseteq> set ?children"
    using route_exact_flag[where plugin = ?catalog and app = "demo_app None"
        and out = "RedirectRouteOutput ''/'' ''/catalog'' (Some \<lparr>exact = Some False\<rparr>)"
        and h = "\<lambda>a. []"] m o2
    by blast
  have 3: "set (declared_route ?docs
                  (NavTargetComponentOutput \<lparr>path = ''/docs''\<rparr> (Component 2)
                     (Some \<lparr>exact = None\<rparr>)))
             \<subseteq> set ?children"
    using route_exact_flag[where plugin = ?docs and app = "demo_app None"
        and out = "NavTargetComponentOutput \<lparr>path = ''/docs''\<rparr> (Component 2)
                     (Some \<lparr>exact = None\<rparr>)" and h = "\<lambda>a. []"] m o3
    by blast
  have 4: "exact_or_default (Some \<lparr>exact = None\<rparr>) = True"
    using route_exact_flag[where ro = "\<lparr>exact = None\<rparr>"] by simp
  have 5: "exact_or_default (Some \<lparr>exact = Some False\<rparr>) = False"
    using route_exact_flag[where ro = "\<lparr>exact = Some False\<rparr>" and b = False] by simp
  have g: "getId ?docs = ''docs''"
    by (simp add: demo_docs_def)
  from 1 2 3 4 5 show ?thesis
    by (simp add: g)
qed

text \<open>
  Claim C8. A descriptor whose tag is none of \<open>route\<close>, \<open>nav-target-component\<close>,
  \<open>redirect-route\<close> and \<open>feature-flag\<close> leaves both the route list and the feature-flag
  list as they are; and the root component and the heap after the build are the same as
  for the application whose plugins declare only their descriptors of the four kinds.
  \<open>getRootComponent\<close> has no failing outcome at all.
\<close>

theorem unknown_output_ignored:
  "(output_type out \<notin> {''route'', ''nav-target-component'', ''redirect-route'', ''feature-flag''} \<longrightarrow>
      switch_output plugin out (routes, flags) = (routes, flags)) \<and>
   getRootComponent
     (app\<lparr>plugins := map (\<lambda>p. p\<lparr>output' := filter recognized (output' p)\<rparr>) (plugins app)\<rparr>) h =
   getRootComponent app h"
proof
  show "output_type out \<notin> {''route'', ''nav-target-component'', ''redirect-route'', ''feature-flag''} \<longrightarrow>
      switch_output plugin out (routes, flags) = (routes, flags)"
    by (cases out) simp_all
next
  show "getRootComponent
     (app\<lparr>plugins := map (\<lambda>p. p\<lparr>output' := filter recognized (output' p)\<rparr>) (plugins app)\<rparr>) h =
   getRootComponent app h"
    by (simp add: getRootComponent_eq declared_filter_recognized split: option.splits)
qed

theorem unknown_output_ignored_witness:
  "switch_output (plugin_with_id ''catalog'') (OtherOutput ''widget'')
     ([Route (Some ''/a'') (Some ''/a'') LoginPage (Some True)],
      [\<lparr>pluginId = ''catalog'', name = ''beta''\<rparr>]) =
     ([Route (Some ''/a'') (Some ''/a'') LoginPage (Some True)],
      [\<lparr>pluginId = ''catalog'', name = ''beta''\<rparr>]) \<and>
   getRootComponent
     ((demo_app None)\<lparr>plugins :=
        [\<lparr>getId = ''catalog'',
          output' = [RouteOutput ''/catalog'' (Component 1) None,
                     FeatureFlagOutput ''catalog-beta'',
                     RedirectRouteOutput ''/'' ''/catalog'' (Some \<lparr>exact = Some False\<rparr>)]\<rparr>,
         \<lparr>getId = ''docs'',
          output' = [NavTargetComponentOutput \<lparr>path = ''/docs''\<rparr> (Component 2)
                       (Some \<lparr>exact = None\<rparr>),
                     FeatureFlagOutput ''docs-search'']\<rparr>]\<rparr>) (\<lambda>a. []) =
   getRootComponent (demo_app None) (\<lambda>a. [])"
proof -
  have t: "output_type (OtherOutput ''widget'' :: nat PluginOutput) \<notin>
      {''route'', ''nav-target-component'', ''redirect-route'', ''feature-flag''}"
    by simp
  note inst = unknown_output_ignored[where out = "OtherOutput ''widget''"
      and plugin = "plugin_with_id ''catalog''"
      and routes = "[Route (Some ''/a'') (Some ''/a'') LoginPage (Some True)]"
      and flags = "[\<lparr>pluginId = ''catalog'', name = ''beta''\<rparr>]"
      and app = "demo_app None" and h = "\<lambda>a. []"]
  have f: "map (\<lambda>p. p\<lparr>output' := filter recognized (output' p)\<rparr>) (plugins (demo_app None)) =
        [\<lparr>getId = ''catalog'',
          output' = [RouteOutput ''/catalog'' (Component 1) None,
                     FeatureFlagOutput ''catalog-beta'',
                     RedirectRouteOutput ''/'' ''/catalog'' (Some \<lparr>exact = Some False\<rparr>)]\<rparr>,
         \<lparr>getId = ''docs'',
          output' = [NavTargetComponentOutput \<lparr>path = ''/docs''\<rparr> (Component 2)
                       (Some \<lparr>exact = None\<rparr>),
                     FeatureFlagOutput ''docs-search'']\<rparr>]"
    by (simp add: demo_app_def demo_plugins_def demo_catalog_def demo_docs_def recognized_def)
  from inst t show ?thesis
    unfolding f by blast
qed

section \<open>Properties of \<open>prepare\<close>\<close>

lemma prepare_unfold:
  assumes "parseGitUrl env (url opts) = Inr parsed"
  shows "prepare env this opts s =
     (let checkoutPath = path_join env [workspacePath opts, ''checkout''];
          targetPath = path_join env [workspacePath opts, ''template''];
          git = (if token this = None \<or> token this = Some []
                 then Git_fromAuth None None (logger opts)
                 else Git_fromAuth (token this) (Some ''x-oauth-basic'') (logger opts));
          cl = Clone git (toString parsed ''https'') checkoutPath (ref parsed);
          mv = Move (path_resolve env [checkoutPath, filepath parsed]) targetPath;
          rm = Rmdir (path_join env [targetPath, ''.git''])
      in case run env cl (fst s) of
           (Inl e, w1) \<Rightarrow> (Inl e, (w1, snd s @ [cl]))
         | (Inr u, w1) \<Rightarrow>
             (case run env mv w1 of
                (Inl e, w2) \<Rightarrow> (Inl e, (w2, snd s @ [cl, mv]))
              | (Inr u, w2) \<Rightarrow>
                  (case run env rm w2 of (r, w3) \<Rightarrow> (Inr (), (w3, snd s @ [cl, mv, rm])))))"
  using assms
  by (cases "token this")
     (auto simp: prepare_def perform_def Let_def split: prod.splits sum.splits)


lemma prepare_clone_fails:
  assumes "parseGitUrl env (url opts) = Inr parsed"
    and "run env (Clone (if token this = None \<or> token this = Some []
                         then Git_fromAuth None None (logger opts)
                         else Git_fromAuth (token this) (Some ''x-oauth-basic'') (logger opts))
                    (toString parsed ''https'')
                    (path_join env [workspacePath opts, ''checkout'']) (ref parsed)) w = (Inl e, w1)"
  shows "prepare env this opts (w, log) =
     (Inl e, (w1, log @ [Clone (if token this = None \<or> token this = Some []
                         then Git_fromAuth None None (logger opts)
                         else Git_fromAuth (token this) (Some ''x-oauth-basic'') (logger opts))
                    (toString parsed ''https'')
                    (path_join env [workspacePath opts, ''checkout'']) (ref parsed)]))"
  using assms(2) unfolding prepare_unfold[OF assms(1)] Let_def by simp

lemma prepare_move_fails:
  assumes "parseGitUrl env (url opts) = Inr parsed"
    and "run env (Clone (if token this = None \<or> token this = Some []
                         then Git_fromAuth None None (logger opts)
                         else Git_fromAuth (token this) (Some ''x-oauth-basic'') (logger opts))
                    (toString parsed ''https'')
                    (path_join env [workspacePath opts, ''checkout'']) (ref parsed)) w = (Inr u, w1)"
    and "run env (Move (path_resolve env [path_join env [workspacePath opts, ''checkout''],
                                          filepath parsed])
                       (path_join env [workspacePath opts, ''template''])) w1 = (Inl e, w2)"
  shows "prepare env this opts (w, log) =
     (Inl e, (w2, log @ [Clone (if token this = None \<or> token this = Some []
                         then Git_fromAuth None None (logger opts)
                         else Git_fromAuth (token this) (Some ''x-oauth-basic'') (logger opts))
                    (toString parsed ''https'')
                    (path_join env [workspacePath opts, ''checkout'']) (ref parsed),
                  Move (path_resolve env [path_join env [workspacePath opts, ''checkout''],
                                          filepath parsed])
                       (path_join env [workspacePath opts, ''template''])]))"
  using assms(2,3) unfolding prepare_unfold[OF assms(1)] Let_def by simp

lemma prepare_move_succeeds:
  assumes "parseGitUrl env (url opts) = Inr parsed"
    and "run env (Clone (if token this = None \<or> token this = Some []
                         then Git_fromAuth None None (logger opts)
                         else Git_fromAuth (token this) (Some ''x-oauth-basic'') (logger opts))
                    (toString parsed ''https'')
                    (path_join env [workspacePath opts, ''checkout'']) (ref parsed)) w = (Inr u, w1)"
    and "run env (Move (path_resolve env [path_join env [workspacePath opts, ''checkout''],
                                          filepath parsed])
                       (path_join env [workspacePath opts, ''template''])) w1 = (Inr u', w2)"
    and "run env (Rmdir (path_join env [path_join env [workspacePath opts, ''template''], ''.git'']))
           w2 = (r, w3)"
  shows "prepare env this opts (w, log) =
     (Inr (), (w3, log @ [Clone (if token this = None \<or> token this = Some []
                         then Git_fromAuth None None (logger opts)
                         else Git_fromAuth (token this) (Some ''x-oauth-basic'') (logger opts))
                    (toString parsed ''https'')
                    (path_join env [workspacePath opts, ''checkout'']) (ref parsed),
                  Move (path_resolve env [path_join env [workspacePath opts, ''checkout''],
                                          filepath parsed])
                       (path_join env [workspacePath opts, ''template'']),
                  Rmdir (path_join env [path_join env [workspacePath opts, ''template''], ''.git''])]))"
  using assms(2,3,4) unfolding prepare_unfold[OF assms(1)] Let_def by simp


text \<open>
  Claim C5. Once the URL is parsed, \<open>prepare\<close> makes at most three calls: the clone
  \<open>cl\<close>, the move \<open>mv\<close> and the removal \<open>rm\<close> of \<open>targetPath/.git\<close>. If the clone fails
  with \<open>e\<close>, \<open>prepare\<close> fails with that same \<open>e\<close>, the clone is the only call made and the
  world is as the failed clone left it. If the clone succeeds and the move fails with
  \<open>e\<close>, \<open>prepare\<close> fails with that same \<open>e\<close> after exactly these two calls, the world as
  the failed move left it. If both succeed, \<open>prepare\<close> succeeds whatever the outcome \<open>r\<close>
  of the removal is, error or not.
\<close>

theorem prepare_error_propagation:
  assumes "parseGitUrl env (url opts) = Inr parsed"
    and "checkoutPath = path_join env [workspacePath opts, ''checkout'']"
    and "targetPath = path_join env [workspacePath opts, ''template'']"
    and "git = (if token this = None \<or> token this = Some []
                then Git_fromAuth None None (logger opts)
                else Git_fromAuth (token this) (Some ''x-oauth-basic'') (logger opts))"
    and "cl = Clone git (toString parsed ''https'') checkoutPath (ref parsed)"
    and "mv = Move (path_resolve env [checkoutPath, filepath parsed]) targetPath"
    and "rm = Rmdir (path_join env [targetPath, ''.git''])"
  shows "(run env cl w = (Inl e, w1) \<longrightarrow>
            prepare env this opts (w, log) = (Inl e, (w1, log @ [cl]))) \<and>
         (run env cl w = (Inr (), w1) \<and> run env mv w1 = (Inl e, w2) \<longrightarrow>
            prepare env this opts (w, log) = (Inl e, (w2, log @ [cl, mv]))) \<and>
         (run env cl w = (Inr (), w1) \<and> run env mv w1 = (Inr (), w2) \<and>
          run env rm w2 = (r, w3) \<longrightarrow>
            prepare env this opts (w, log) = (Inr (), (w3, log @ [cl, mv, rm])))"
proof (intro conjI impI)
  assume "run env cl w = (Inl e, w1)"
  then show "prepare env this opts (w, log) = (Inl e, (w1, log @ [cl]))"
    unfolding assms(2-7) by (rule prepare_clone_fails[OF assms(1)])
next
  assume "run env cl w = (Inr (), w1) \<and> run env mv w1 = (Inl e, w2)"
  then have a: "run env cl w = (Inr (), w1)" and b: "run env mv w1 = (Inl e, w2)" by simp_all
  show "prepare env this opts (w, log) = (Inl e, (w2, log @ [cl, mv]))"
    using a b unfolding assms(2-7) by (rule prepare_move_fails[OF assms(1)])
next
  assume "run env cl w = (Inr (), w1) \<and> run env mv w1 = (Inr (), w2) \<and> run env rm w2 = (r, w3)"
  then have a: "run env cl w = (Inr (), w1)" and b: "run env mv w1 = (Inr (), w2)"
    and c: "run env rm w2 = (r, w3)" by simp_all
  show "prepare env this opts (w, log) = (Inr (), (w3, log @ [cl, mv, rm]))"
    using a b c unfolding assms(2-7) by (rule prepare_move_succeeds[OF assms(1)])
qed

theorem prepare_error_propagation_witness:
  "prepare demo_env \<lparr>token = None\<rparr>
     \<lparr>url = ''https://unreachable/org/repo'', workspacePath = ''/ws'', logger = ()\<rparr> ([], []) =
     (Inl ''clone failed'',
      ([], [Clone (Git_fromAuth None None ()) ''https://unreachable/org/repo'' ''/ws/checkout'' []])) \<and>
   prepare demo_env \<lparr>token = None\<rparr>
     \<lparr>url = ''https://example.com/org/repo/tree/main/missing'', workspacePath = ''/ws'',
      logger = ()\<rparr> ([], []) =
     (Inl ''no such directory'',
      ([''/ws/checkout'', ''/ws/checkout/.git'', ''/ws/checkout/templates/foo''],
       [Clone (Git_fromAuth None None ()) ''https://example.com/org/repo'' ''/ws/checkout'' ''main'',
        Move ''/ws/checkout/missing'' ''/ws/template''])) \<and>
   prepare demo_env \<lparr>token = None\<rparr>
     \<lparr>url = ''https://example.com/org/repo/tree/main/templates/foo'', workspacePath = ''/ws'',
      logger = ()\<rparr> ([], []) =
     (Inr (),
      ([''/ws/checkout'', ''/ws/checkout/.git'', ''/ws/template''],
       [Clone (Git_fromAuth None None ()) ''https://example.com/org/repo'' ''/ws/checkout'' ''main'',
        Move ''/ws/checkout/templates/foo'' ''/ws/template'',
        Rmdir ''/ws/template/.git'']))"
proof -
  let ?repo = "\<lambda>proto. proto @ ''://example.com/org/repo''"
  let ?git = "Git_fromAuth None None ()"
  have 1: "prepare demo_env \<lparr>token = None\<rparr>
     \<lparr>url = ''https://unreachable/org/repo'', workspacePath = ''/ws'', logger = ()\<rparr> ([], []) =
     (Inl ''clone failed'',
      ([], [] @ [Clone ?git ''https://unreachable/org/repo'' ''/ws/checkout'' []]))"
    using prepare_error_propagation
      [where env = demo_env and this = "\<lparr>token = None\<rparr>"
         and opts = "\<lparr>url = ''https://unreachable/org/repo'', workspacePath = ''/ws'', logger = ()\<rparr>"
         and parsed = "\<lparr>filepath = [], ref = [],
                         toString = (\<lambda>proto. proto @ drop 5 ''https://unreachable/org/repo'')\<rparr>"
         and checkoutPath = "''/ws/checkout''" and targetPath = "''/ws/template''"
         and git = ?git
         and cl = "Clone ?git ''https://unreachable/org/repo'' ''/ws/checkout'' []"
         and mv = "Move ''/ws/checkout'' ''/ws/template''"
         and rm = "Rmdir ''/ws/template/.git''"
         and w = "[]" and log = "[]" and e = "''clone failed''" and ?w1.0 = "[]"
         and ?w2.0 = "[]" and ?w3.0 = "[]" and r = "Inr ()"]
    by (simp add: demo_env_def demo_parse_def)
  have 2: "prepare demo_env \<lparr>token = None\<rparr>
     \<lparr>url = ''https://example.com/org/repo/tree/main/missing'', workspacePath = ''/ws'',
      logger = ()\<rparr> ([], []) =
     (Inl ''no such directory'',
      ([''/ws/checkout'', ''/ws/checkout/.git'', ''/ws/checkout/templates/foo''],
       [] @ [Clone ?git ''https://example.com/org/repo'' ''/ws/checkout'' ''main'',
        Move ''/ws/checkout/missing'' ''/ws/template'']))"
    using prepare_error_propagation
      [where env = demo_env and this = "\<lparr>token = None\<rparr>"
         and opts = "\<lparr>url = ''https://example.com/org/repo/tree/main/missing'',
                       workspacePath = ''/ws'', logger = ()\<rparr>"
         and parsed = "\<lparr>filepath = ''missing'', ref = ''main'', toString = ?repo\<rparr>"
         and checkoutPath = "''/ws/checkout''" and targetPath = "''/ws/template''"
         and git = ?git
         and cl = "Clone ?git ''https://example.com/org/repo'' ''/ws/checkout'' ''main''"
         and mv = "Move ''/ws/checkout/missing'' ''/ws/template''"
         and rm = "Rmdir ''/ws/template/.git''"
         and w = "[]" and log = "[]" and e = "''no such directory''"
         and ?w1.0 = "[''/ws/checkout'', ''/ws/checkout/.git'', ''/ws/checkout/templates/foo'']"
         and ?w2.0 = "[''/ws/checkout'', ''/ws/checkout/.git'', ''/ws/checkout/templates/foo'']"
         and ?w3.0 = "[]" and r = "Inr ()"]
    by (simp add: demo_env_def demo_parse_def)
  have 3: "prepare demo_env \<lparr>token = None\<rparr>
     \<lparr>url = ''https://example.com/org/repo/tree/main/templates/foo'', workspacePath = ''/ws'',
      logger = ()\<rparr> ([], []) =
     (Inr (),
      ([''/ws/checkout'', ''/ws/checkout/.git'', ''/ws/template''],
       [] @ [Clone ?git ''https://example.com/org/repo'' ''/ws/checkout'' ''main'',
        Move ''/ws/checkout/templates/foo'' ''/ws/template'',
        Rmdir ''/ws/template/.git'']))"
    using prepare_error_propagation
      [where env = demo_env and this = "\<lparr>token = None\<rparr>"
         and opts = "\<lparr>url = ''https://example.com/org/repo/tree/main/templates/foo'',
                       workspacePath = ''/ws'', logger = ()\<rparr>"
         and parsed = "\<lparr>filepath = ''templates/foo'', ref = ''main'', toString = ?repo\<rparr>"
         and checkoutPath = "''/ws/checkout''" and targetPath = "''/ws/template''"
         and git = ?git
         and cl = "Clone ?git ''https://example.com/org/repo'' ''/ws/checkout'' ''main''"
         and mv = "Move ''/ws/checkout/templates/foo'' ''/ws/template''"
         and rm = "Rmdir ''/ws/template/.git''"
         and w = "[]" and log = "[]" and e = "''none''"
         and ?w1.0 = "[''/ws/checkout'', ''/ws/checkout/.git'', ''/ws/checkout/templates/foo'']"
         and ?w2.0 = "[''/ws/checkout'', ''/ws/checkout/.git'', ''/ws/template'']"
         and ?w3.0 = "[''/ws/checkout'', ''/ws/checkout/.git'', ''/ws/template'']"
         and r = "Inl ''no such directory''"]
    by (simp add: demo_env_def demo_parse_def)
  from 1 2 3 show ?thesis by simp
qed

section \<open>Properties of the path module\<close>
















section \<open>Paths and credentials of \<open>prepare\<close>\<close>




end
